theory Spec2Isabelle
  imports Main
begin

section \<open>The fragment of Python the two agents run on\<close>

text \<open>
  Every value the agents handle comes out of \<^verbatim>\<open>json.loads\<close>: the model's reply, the
  keyword arguments of a tool call, the body of the exchange-rate endpoint. A JSON object is
  an association list in the order of the document; lookups take the first binding of a key.
  A non-integer number \<open>JFloat m k\<close> stands for \<open>m / 10 ^ k\<close>, held exactly: the rounding
  of binary64 arithmetic is not modelled.
\<close>

datatype json =
    JNull
  | JBool bool
  | JInt int
  | JFloat int nat
  | JStr string
  | JArr "json list"
  | JObj "(string \<times> json) list"

text \<open>
  The exceptions deriving from \<^verbatim>\<open>Exception\<close> that the code raises or meets; \<open>KeyError\<close>
  carries the missing key, the others their message. \<open>OtherError\<close> stands for whatever an
  external call (the model API, the network, a tool) may raise.
\<close>

datatype exn =
    ValueError string
  | KeyError string
  | TypeError string
  | AttributeError string
  | IndexError string
  | JSONDecodeError string
  | OtherError string

type_synonym 'a result = "exn + 'a"

definition newline :: string where
  "newline = [CHR 0x0A]"

definition digit_char :: "nat \<Rightarrow> char" where
  "digit_char d = ''0123456789'' ! d"

fun digits :: "nat \<Rightarrow> string" where
  "digits n = (if n < 10 then [digit_char n] else digits (n div 10) @ [digit_char (n mod 10)])"

declare digits.simps [simp del]

definition str_int :: "int \<Rightarrow> string" where
  "str_int i = (if i < 0 then ''-'' @ digits (nat (- i)) else digits (nat i))"

text \<open>\<^verbatim>\<open>sep.join(items)\<close> on strings.\<close>

fun join :: "string \<Rightarrow> string list \<Rightarrow> string" where
  "join sep [] = []"
| "join sep [x] = x"
| "join sep (x # y # ys) = x @ sep @ join sep (y # ys)"

text \<open>\<^verbatim>\<open>s.startswith(p)\<close> and \<^verbatim>\<open>sub in s\<close> on strings.\<close>

fun starts_with :: "string \<Rightarrow> string \<Rightarrow> bool" where
  "starts_with [] s = True"
| "starts_with (x # xs) [] = False"
| "starts_with (x # xs) (y # ys) = (x = y \<and> starts_with xs ys)"

fun contains_str :: "string \<Rightarrow> string \<Rightarrow> bool" where
  "contains_str sub [] = (sub = [])"
| "contains_str sub (c # cs) = (starts_with sub (c # cs) \<or> contains_str sub cs)"

text \<open>
  \<^verbatim>\<open>repr\<close> of a string: quoted. Python escapes quotes, backslashes and non-printable
  characters as well; the model is exact on strings that have none.
\<close>

definition repr_str :: "string \<Rightarrow> string" where
  "repr_str s = [CHR 0x27] @ s @ [CHR 0x27]"

text \<open>
  A float \<open>m / 10 ^ k\<close> shown positionally, with at least one digit after the point and
  no trailing zero beyond it (\<^verbatim>\<open>0.9\<close>, \<^verbatim>\<open>100.0\<close>); Python turns to exponent notation
  for very large and very small magnitudes, which is not modelled.
\<close>

fun strip_zeros :: "nat \<Rightarrow> nat \<Rightarrow> nat \<times> nat" where
  "strip_zeros m 0 = (m, 0)"
| "strip_zeros m (Suc k) = (if m mod 10 = 0 then strip_zeros (m div 10) k else (m, Suc k))"

fun pad_left :: "nat \<Rightarrow> string \<Rightarrow> string" where
  "pad_left n s = replicate (n - length s) CHR ''0'' @ s"

definition str_float :: "int \<Rightarrow> nat \<Rightarrow> string" where
  "str_float m k =
     (let (a, j) = strip_zeros (nat \<bar>m\<bar>) k;
          sign = (if m < 0 then ''-'' else [])
      in if j = 0 then sign @ digits a @ ''.0''
         else sign @ digits (a div 10 ^ j) @ ''.'' @ pad_left j (digits (a mod 10 ^ j)))"

fun repr :: "json \<Rightarrow> string" where
  "repr JNull = ''None''"
| "repr (JBool b) = (if b then ''True'' else ''False'')"
| "repr (JInt i) = str_int i"
| "repr (JFloat m k) = str_float m k"
| "repr (JStr s) = repr_str s"
| "repr (JArr xs) = ''['' @ join '', '' (map repr xs) @ '']''"
| "repr (JObj kvs) =
     ''{'' @ join '', '' (map (\<lambda>kv. repr_str (fst kv) @ '': '' @ repr (snd kv)) kvs) @ ''}''"

text \<open>\<^verbatim>\<open>str(v)\<close>, which is also what an f-string field \<^verbatim>\<open>{v}\<close> renders.\<close>

definition py_str :: "json \<Rightarrow> string" where
  "py_str v = (case v of JStr s \<Rightarrow> s | _ \<Rightarrow> repr v)"

definition type_name :: "json \<Rightarrow> string" where
  "type_name v =
     (case v of JNull \<Rightarrow> ''NoneType'' | JBool _ \<Rightarrow> ''bool'' | JInt _ \<Rightarrow> ''int''
      | JFloat _ _ \<Rightarrow> ''float'' | JStr _ \<Rightarrow> ''str'' | JArr _ \<Rightarrow> ''list'' | JObj _ \<Rightarrow> ''dict'')"

text \<open>\<^verbatim>\<open>str(e)\<close> of an exception: the message, and for a \<open>KeyError\<close> the \<^verbatim>\<open>repr\<close> of the key.\<close>

definition exn_str :: "exn \<Rightarrow> string" where
  "exn_str e =
     (case e of ValueError m \<Rightarrow> m | KeyError k \<Rightarrow> repr_str k | TypeError m \<Rightarrow> m
      | AttributeError m \<Rightarrow> m | IndexError m \<Rightarrow> m | JSONDecodeError m \<Rightarrow> m
      | OtherError m \<Rightarrow> m)"

text \<open>Truth value of a value under \<^verbatim>\<open>if\<close> and \<^verbatim>\<open>not\<close>.\<close>

definition truthy :: "json \<Rightarrow> bool" where
  "truthy v =
     (case v of JNull \<Rightarrow> False | JBool b \<Rightarrow> b | JInt i \<Rightarrow> i \<noteq> 0 | JFloat m _ \<Rightarrow> m \<noteq> 0
      | JStr s \<Rightarrow> s \<noteq> [] | JArr xs \<Rightarrow> xs \<noteq> [] | JObj kvs \<Rightarrow> kvs \<noteq> [])"

text \<open>\<^verbatim>\<open>v.get(key, default)\<close>: only a dict has the method.\<close>

definition get :: "json \<Rightarrow> string \<Rightarrow> json \<Rightarrow> json result" where
  "get v key dflt =
     (case v of
        JObj kvs \<Rightarrow> Inr (case map_of kvs key of None \<Rightarrow> dflt | Some x \<Rightarrow> x)
      | _ \<Rightarrow> Inl (AttributeError
           (repr_str (type_name v) @ '' object has no attribute '' @ repr_str ''get'')))"

text \<open>\<^verbatim>\<open>v[key]\<close> with a string key.\<close>

definition getitem :: "json \<Rightarrow> string \<Rightarrow> json result" where
  "getitem v key =
     (case v of
        JObj kvs \<Rightarrow> (case map_of kvs key of None \<Rightarrow> Inl (KeyError key) | Some x \<Rightarrow> Inr x)
      | JStr _ \<Rightarrow> Inl (TypeError (''string indices must be integers, not '' @ repr_str ''str''))
      | JArr _ \<Rightarrow> Inl (TypeError ''list indices must be integers or slices, not str'')
      | _ \<Rightarrow> Inl (TypeError (repr_str (type_name v) @ '' object is not subscriptable'')))"

text \<open>
  What a \<^verbatim>\<open>for\<close> loop or \<^verbatim>\<open>join\<close> iterates over: the items of a list, the keys of a dict,
  the characters of a string; nothing else is iterable.
\<close>

definition iter :: "json \<Rightarrow> json list result" where
  "iter v =
     (case v of
        JArr xs \<Rightarrow> Inr xs
      | JObj kvs \<Rightarrow> Inr (map (\<lambda>kv. JStr (fst kv)) kvs)
      | JStr s \<Rightarrow> Inr (map (\<lambda>c. JStr [c]) s)
      | _ \<Rightarrow> Inl (TypeError (repr_str (type_name v) @ '' object is not iterable'')))"

text \<open>\<^verbatim>\<open>sep.join(v)\<close>: every item must be a string.\<close>

fun str_items :: "nat \<Rightarrow> json list \<Rightarrow> string list result" where
  "str_items i [] = Inr []"
| "str_items i (x # xs) =
     (case x of
        JStr s \<Rightarrow> (case str_items (Suc i) xs of Inl e \<Rightarrow> Inl e | Inr ss \<Rightarrow> Inr (s # ss))
      | _ \<Rightarrow> Inl (TypeError (''sequence item '' @ digits i @ '': expected str instance, ''
                   @ type_name x @ '' found'')))"

definition py_join :: "string \<Rightarrow> json \<Rightarrow> string result" where
  "py_join sep v =
     (case v of
        JArr xs \<Rightarrow> (case str_items 0 xs of Inl e \<Rightarrow> Inl e | Inr ss \<Rightarrow> Inr (join sep ss))
      | JObj kvs \<Rightarrow> Inr (join sep (map fst kvs))
      | JStr s \<Rightarrow> Inr (join sep (map (\<lambda>c. [c]) s))
      | _ \<Rightarrow> Inl (TypeError ''can only join an iterable''))"

section \<open>The outside world: the model API, the JSON library, the network\<close>

text \<open>
  A chat request as \<^verbatim>\<open>client.chat.completions.create\<close> receives it. The world keeps the
  requests sent so far and the tool implementations entered so far, in order: these two
  traces are what the outside can observe of a run.
\<close>

datatype role = System | User | Assistant

record message =
  role :: role
  content :: string

record request =
  model :: string
  messages :: "message list"
  temperature :: int

type_synonym kwargs = "(string \<times> json) list"

record world =
  requests :: "request list"
  invocations :: "(string \<times> kwargs) list"

text \<open>
  The library and the services the code calls, as parameters: \<open>loads\<close> is
  \<^verbatim>\<open>json.loads\<close> (\<open>Inl msg\<close> when it raises \<^verbatim>\<open>JSONDecodeError\<close> with that
  message), \<open>dumps\<close> is
  \<^verbatim>\<open>json.dumps\<close> with its \<^verbatim>\<open>indent\<close>, \<open>client\<close> answers a chat request with the reply's
  text or raises, and may depend on every request made before; \<open>urlopen\<close> is the body read
  from a URL, or what the network raised; \<open>system_prompt\<close> is the text that
  \<^verbatim>\<open>create_system_prompt\<close> renders, which no property below looks into.
\<close>

record env =
  loads :: "string \<Rightarrow> string + json"
  dumps :: "nat option \<Rightarrow> json \<Rightarrow> string"
  client :: "request list \<Rightarrow> request \<Rightarrow> string result"
  urlopen :: "string \<Rightarrow> string result"
  system_prompt :: string

subsection \<open>State and exceptions\<close>

text \<open>
  A statement runs in a state and either raises or yields a value; the state changes made
  before a \<^verbatim>\<open>raise\<close> stay.
\<close>

type_synonym ('s, 'a) prog = "'s \<Rightarrow> 'a result \<times> 's"

definition returnM :: "'a \<Rightarrow> ('s, 'a) prog" where
  "returnM x = (\<lambda>s. (Inr x, s))"

definition raiseM :: "exn \<Rightarrow> ('s, 'a) prog" where
  "raiseM e = (\<lambda>s. (Inl e, s))"

definition pureM :: "'a result \<Rightarrow> ('s, 'a) prog" where
  "pureM r = (\<lambda>s. (r, s))"

definition bindM :: "('s, 'a) prog \<Rightarrow> ('a \<Rightarrow> ('s, 'b) prog) \<Rightarrow> ('s, 'b) prog" where
  "bindM m f = (\<lambda>s. case m s of (Inl e, s') \<Rightarrow> (Inl e, s') | (Inr x, s') \<Rightarrow> f x s')"

text \<open>\<^verbatim>\<open>try: m except Exception as e: h(e)\<close>\<close>

definition try_except :: "('s, 'a) prog \<Rightarrow> (exn \<Rightarrow> ('s, 'a) prog) \<Rightarrow> ('s, 'a) prog" where
  "try_except m h = (\<lambda>s. case m s of (Inl e, s') \<Rightarrow> h e s' | (Inr x, s') \<Rightarrow> (Inr x, s'))"

text \<open>One call of the model API: the request is logged, the reply is the client's.\<close>

definition create :: "env \<Rightarrow> request \<Rightarrow> (world, string) prog" where
  "create env req = (\<lambda>w. (client env (requests w) req, w\<lparr>requests := requests w @ [req]\<rparr>))"

section \<open>The tool-use agent (\<^verbatim>\<open>tool_use/src/main.py\<close>)\<close>

text \<open>
  Modelled from the spec: the class \<^verbatim>\<open>Tool\<close> of the module \<^verbatim>\<open>tool_registry\<close>, which is
  imported but not part of the sources. A tool has a unique name, a description, a parameter
  schema (parameter name to declared type and description) and an invocable implementation
  that takes keyword arguments and returns a string, or raises.
\<close>

record tool =
  name :: string
  description :: string
  parameters :: "(string \<times> string \<times> string) list"
  func :: "kwargs \<Rightarrow> string result"

text \<open>\<^verbatim>\<open>Agent.tools\<close>: a dict from name to tool, in insertion order.\<close>

record agent =
  tools :: "(string \<times> tool) list"

fun dict_set :: "(string \<times> 'v) list \<Rightarrow> string \<Rightarrow> 'v \<Rightarrow> (string \<times> 'v) list" where
  "dict_set [] k v = [(k, v)]"
| "dict_set ((k', v') # kvs) k v = (if k' = k then (k, v) # kvs else (k', v') # dict_set kvs k v)"

definition add_tool :: "agent \<Rightarrow> tool \<Rightarrow> agent" where
  "add_tool ag t = ag\<lparr>tools := dict_set (tools ag) (name t) t\<rparr>"

definition get_available_tools :: "agent \<Rightarrow> string list" where
  "get_available_tools ag = map (\<lambda>kv. name (snd kv) @ '': '' @ description (snd kv)) (tools ag)"

text \<open>
  \<^verbatim>\<open>use_tool(tool_name, **kwargs)\<close>. The name is whatever value the plan carries under
  \<^verbatim>\<open>"tool"\<close>: a list or a dict cannot be looked up in a dict at all (unhashable), any
  other value that is not a registered name is not found. Entering the implementation is
  recorded in the world.
\<close>

definition use_tool :: "agent \<Rightarrow> json \<Rightarrow> kwargs \<Rightarrow> (world, string) prog" where
  "use_tool ag tool_name kw =
     (case tool_name of
        JArr _ \<Rightarrow> raiseM (TypeError (''unhashable type: '' @ repr_str ''list''))
      | JObj _ \<Rightarrow> raiseM (TypeError (''unhashable type: '' @ repr_str ''dict''))
      | JStr n \<Rightarrow>
          (case map_of (tools ag) n of
             None \<Rightarrow> raiseM (ValueError (''Tool '' @ repr_str n @ '' not found. Available tools: ''
                       @ repr (JArr (map (\<lambda>kv. JStr (fst kv)) (tools ag)))))
           | Some t \<Rightarrow> (\<lambda>w. (func t kw, w\<lparr>invocations := invocations w @ [(n, kw)]\<rparr>)))
      | _ \<Rightarrow> raiseM (ValueError (''Tool '' @ repr_str (py_str tool_name)
                 @ '' not found. Available tools: ''
                 @ repr (JArr (map (\<lambda>kv. JStr (fst kv)) (tools ag))))))"

text \<open>
  The call \<^verbatim>\<open>self.use_tool(tool_name, **tool_args)\<close>: what follows \<^verbatim>\<open>**\<close> must be a
  mapping, and none of its keys may name a parameter that is already bound.
\<close>

definition unpack_kwargs :: "json \<Rightarrow> kwargs result" where
  "unpack_kwargs v =
     (case v of
        JObj kvs \<Rightarrow>
          (if ''self'' \<in> set (map fst kvs)
           then Inl (TypeError (''Agent.use_tool() got multiple values for argument '' @ repr_str ''self''))
           else if ''tool_name'' \<in> set (map fst kvs)
           then Inl (TypeError (''Agent.use_tool() got multiple values for argument '' @ repr_str ''tool_name''))
           else Inr kvs)
      | _ \<Rightarrow> Inl (TypeError (''Agent.use_tool() argument after ** must be a mapping, not ''
                   @ type_name v)))"

definition plan_request :: "env \<Rightarrow> string \<Rightarrow> string \<Rightarrow> request" where
  "plan_request env m user_query =
     \<lparr>model = m,
      messages = [\<lparr>role = System, content = system_prompt env\<rparr>,
                  \<lparr>role = User, content = user_query\<rparr>],
      temperature = 0\<rparr>"

text \<open>\<^verbatim>\<open>Agent.plan\<close>\<close>

definition tu_plan :: "env \<Rightarrow> string \<Rightarrow> (world, json) prog" where
  "tu_plan env user_query =
     bindM (create env (plan_request env ''gpt-4o-mini'' user_query)) (\<lambda>reply.
       case loads env reply of
         Inl _ \<Rightarrow> raiseM (ValueError ''Failed to parse LLM response as JSON'')
       | Inr p \<Rightarrow> returnM p)"

text \<open>The loop of \<^verbatim>\<open>Agent.execute\<close> over the tool calls, with the results so far.\<close>

fun run_tool_calls :: "agent \<Rightarrow> json list \<Rightarrow> string list \<Rightarrow> (world, string list) prog" where
  "run_tool_calls ag [] results = returnM results"
| "run_tool_calls ag (tool_call # rest) results =
     bindM (pureM (getitem tool_call ''tool'')) (\<lambda>tool_name.
     bindM (pureM (getitem tool_call ''args'')) (\<lambda>tool_args.
     bindM (pureM (unpack_kwargs tool_args)) (\<lambda>kw.
     bindM (use_tool ag tool_name kw) (\<lambda>result.
       run_tool_calls ag rest (results @ [result])))))"

text \<open>The body of the \<^verbatim>\<open>try\<close> of \<^verbatim>\<open>Agent.execute\<close>, then the whole method.\<close>

definition execute_tools :: "agent \<Rightarrow> json \<Rightarrow> (world, json) prog" where
  "execute_tools ag p =
     bindM (pureM (getitem p ''tool_calls'')) (\<lambda>calls.
     bindM (pureM (iter calls)) (\<lambda>tool_calls.
     bindM (run_tool_calls ag tool_calls []) (\<lambda>results.
     bindM (pureM (getitem p ''thought'')) (\<lambda>thought.
     bindM (pureM (getitem p ''plan'')) (\<lambda>steps.
     bindM (pureM (py_join ''. '' steps)) (\<lambda>steps_text.
       returnM (JStr (''Thought: '' @ py_str thought @ newline
                      @ ''Plan: '' @ steps_text @ newline
                      @ ''Results: '' @ join ''. '' results))))))))"

definition tu_execute_body :: "env \<Rightarrow> agent \<Rightarrow> string \<Rightarrow> (world, json) prog" where
  "tu_execute_body env ag user_query =
     bindM (tu_plan env user_query) (\<lambda>p.
     bindM (pureM (get p ''requires_tools'' (JBool True))) (\<lambda>flag.
       if \<not> truthy flag then pureM (getitem p ''direct_response'')
       else execute_tools ag p))"

definition tu_execute :: "env \<Rightarrow> agent \<Rightarrow> string \<Rightarrow> (world, json) prog" where
  "tu_execute env ag user_query =
     try_except (tu_execute_body env ag user_query)
       (\<lambda>e. returnM (JStr (''Error executing plan: '' @ exn_str e)))"

section \<open>The currency tool (\<^verbatim>\<open>tool_use/src/tools.py\<close>)\<close>

subsection \<open>The operations of Python it uses\<close>

definition bindR :: "'a result \<Rightarrow> ('a \<Rightarrow> 'b result) \<Rightarrow> 'b result" where
  "bindR r f = (case r of Inl e \<Rightarrow> Inl e | Inr x \<Rightarrow> f x)"

text \<open>\<^verbatim>\<open>v.upper()\<close>: a method of strings only. Letters outside ASCII are left as they are.\<close>

definition upper_char :: "char \<Rightarrow> char" where
  "upper_char c =
     (case map_of (zip ''abcdefghijklmnopqrstuvwxyz'' ''ABCDEFGHIJKLMNOPQRSTUVWXYZ'') c of
        Some u \<Rightarrow> u
      | None \<Rightarrow> c)"

definition upper :: "json \<Rightarrow> string result" where
  "upper v =
     (case v of
        JStr s \<Rightarrow> Inr (map upper_char s)
      | _ \<Rightarrow> Inl (AttributeError
           (repr_str (type_name v) @ '' object has no attribute '' @ repr_str ''upper'')))"

text \<open>\<^verbatim>\<open>key in v\<close> for a string \<open>key\<close>.\<close>

definition contains :: "json \<Rightarrow> string \<Rightarrow> bool result" where
  "contains v key =
     (case v of
        JObj kvs \<Rightarrow> Inr (key \<in> set (map fst kvs))
      | JArr xs \<Rightarrow> Inr (JStr key \<in> set xs)
      | JStr s \<Rightarrow> Inr (contains_str key s)
      | _ \<Rightarrow> Inl (TypeError (''argument of type '' @ repr_str (type_name v)
                   @ '' is not iterable'')))"

text \<open>
  \<^verbatim>\<open>a * b\<close>: numbers multiply (a bool counts as 0 or 1), an integer repeats a string or a
  list, anything else is a \<open>TypeError\<close>.
\<close>

definition as_int :: "json \<Rightarrow> int option" where
  "as_int v = (case v of JBool b \<Rightarrow> Some (if b then 1 else 0) | JInt i \<Rightarrow> Some i | _ \<Rightarrow> None)"

definition repeat :: "int \<Rightarrow> 'a list \<Rightarrow> 'a list" where
  "repeat n xs = concat (replicate (nat n) xs)"

definition unsupported_mul :: "json \<Rightarrow> json \<Rightarrow> exn" where
  "unsupported_mul a b =
     TypeError (''unsupported operand type(s) for *: '' @ repr_str (type_name a)
                @ '' and '' @ repr_str (type_name b))"

definition non_int_mul :: "json \<Rightarrow> exn" where
  "non_int_mul b =
     TypeError (''can't multiply sequence by non-int of type '' @ repr_str (type_name b))"

fun mul :: "json \<Rightarrow> json \<Rightarrow> json result" where
  "mul (JFloat m k) (JFloat m' k') = Inr (JFloat (m * m') (k + k'))"
| "mul (JFloat m k) (JStr s) = Inl (non_int_mul (JFloat m k))"
| "mul (JFloat m k) (JArr xs) = Inl (non_int_mul (JFloat m k))"
| "mul (JStr s) (JFloat m k) = Inl (non_int_mul (JFloat m k))"
| "mul (JArr xs) (JFloat m k) = Inl (non_int_mul (JFloat m k))"
| "mul (JFloat m k) b =
     (case as_int b of Some i \<Rightarrow> Inr (JFloat (m * i) k) | None \<Rightarrow> Inl (unsupported_mul (JFloat m k) b))"
| "mul a (JFloat m k) =
     (case as_int a of Some i \<Rightarrow> Inr (JFloat (i * m) k) | None \<Rightarrow> Inl (unsupported_mul a (JFloat m k)))"
| "mul (JStr s) b =
     (case as_int b of Some i \<Rightarrow> Inr (JStr (repeat i s)) | None \<Rightarrow> Inl (non_int_mul b))"
| "mul (JArr xs) b =
     (case as_int b of Some i \<Rightarrow> Inr (JArr (repeat i xs)) | None \<Rightarrow> Inl (non_int_mul b))"
| "mul a (JStr s) =
     (case as_int a of Some i \<Rightarrow> Inr (JStr (repeat i s)) | None \<Rightarrow> Inl (non_int_mul a))"
| "mul a (JArr xs) =
     (case as_int a of Some i \<Rightarrow> Inr (JArr (repeat i xs)) | None \<Rightarrow> Inl (non_int_mul a))"
| "mul a b =
     (case (as_int a, as_int b) of
        (Some i, Some j) \<Rightarrow> Inr (JInt (i * j))
      | _ \<Rightarrow> Inl (unsupported_mul a b))"

text \<open>
  \<^verbatim>\<open>format(v, ".2f")\<close>: a number with exactly two digits after the point, the exact value
  rounded half to even; a value below zero keeps its sign even when it rounds to zero. A
  string has no format code \<^verbatim>\<open>f\<close>, the other types take no format string at all.
\<close>

definition round_half_even :: "nat \<Rightarrow> nat \<Rightarrow> nat" where
  "round_half_even n d =
     (let q = n div d; r = n mod d
      in if 2 * r < d then q else if d < 2 * r then q + 1 else if even q then q else q + 1)"

definition hundredths :: "int \<Rightarrow> nat \<Rightarrow> nat" where
  "hundredths m k =
     (if k \<le> 2 then nat \<bar>m\<bar> * 10 ^ (2 - k) else round_half_even (nat \<bar>m\<bar>) (10 ^ (k - 2)))"

definition fixed2 :: "int \<Rightarrow> nat \<Rightarrow> string" where
  "fixed2 m k =
     (let q = hundredths m k
      in (if m < 0 then ''-'' else []) @ digits (q div 100)
         @ [CHR ''.'', digit_char (q div 10 mod 10), digit_char (q mod 10)])"

definition format_2f :: "json \<Rightarrow> string result" where
  "format_2f v =
     (case v of
        JFloat m k \<Rightarrow> Inr (fixed2 m k)
      | JInt i \<Rightarrow> Inr (fixed2 i 0)
      | JBool b \<Rightarrow> Inr (fixed2 (if b then 1 else 0) 0)
      | JStr _ \<Rightarrow> Inl (ValueError (''Unknown format code '' @ repr_str ''f''
                   @ '' for object of type '' @ repr_str ''str''))
      | _ \<Rightarrow> Inl (TypeError (''unsupported format string passed to '' @ type_name v
                   @ ''.__format__'')))"

subsection \<open>\<^verbatim>\<open>convert_currency\<close>\<close>

text \<open>The body of the \<^verbatim>\<open>try\<close>, statement by statement, then the function with its handler.\<close>

definition convert_currency_body :: "env \<Rightarrow> json \<Rightarrow> json \<Rightarrow> json \<Rightarrow> string result" where
  "convert_currency_body env amount from_currency to_currency =
     bindR (upper from_currency) (\<lambda>src.
     bindR (urlopen env (''https://open.er-api.com/v6/latest/'' @ src)) (\<lambda>body.
     bindR (case loads env body of Inl msg \<Rightarrow> Inl (JSONDecodeError msg) | Inr d \<Rightarrow> Inr d) (\<lambda>data.
     bindR (contains data ''rates'') (\<lambda>has_rates.
       if \<not> has_rates then Inr ''Error: Could not fetch exchange rates''
       else
         bindR (getitem data ''rates'') (\<lambda>rates.
         bindR (get rates [] JNull) (\<lambda>_.
         bindR (upper to_currency) (\<lambda>dst.
         bindR (get rates dst JNull) (\<lambda>rate.
           if \<not> truthy rate then Inr (''Error: No rate found for '' @ py_str to_currency)
           else
             bindR (mul amount rate) (\<lambda>converted.
             bindR (upper from_currency) (\<lambda>src'.
             bindR (format_2f converted) (\<lambda>shown.
             bindR (upper to_currency) (\<lambda>dst'.
               Inr (py_str amount @ '' '' @ src' @ '' = '' @ shown @ '' '' @ dst')))))))))))))"

definition convert_currency :: "env \<Rightarrow> json \<Rightarrow> json \<Rightarrow> json \<Rightarrow> string result" where
  "convert_currency env amount from_currency to_currency =
     (case convert_currency_body env amount from_currency to_currency of
        Inl e \<Rightarrow> Inr (''Error converting currency: '' @ exn_str e)
      | Inr s \<Rightarrow> Inr s)"

text \<open>
  Modelled from the spec: the decorator \<^verbatim>\<open>tool\<close> of the module \<^verbatim>\<open>tool_registry\<close>, not
  part of the sources, which makes a \<^verbatim>\<open>Tool\<close> of the function. Its implementation is the
  function called with keyword arguments: the three parameters must all be given, and no
  other.
\<close>

definition bind_parameters :: "kwargs \<Rightarrow> (json \<times> json \<times> json) result" where
  "bind_parameters kw =
     (case filter (\<lambda>k. k \<notin> set [''amount'', ''from_currency'', ''to_currency'']) (map fst kw) of
        k # _ \<Rightarrow> Inl (TypeError (''convert_currency() got an unexpected keyword argument ''
                     @ repr_str k))
      | [] \<Rightarrow>
          (case (map_of kw ''amount'', map_of kw ''from_currency'', map_of kw ''to_currency'') of
             (Some a, Some f, Some t) \<Rightarrow> Inr (a, f, t)
           | _ \<Rightarrow> Inl (TypeError ''convert_currency() missing required positional arguments'')))"

definition convert_currency_tool :: "env \<Rightarrow> tool" where
  "convert_currency_tool env =
     \<lparr>name = ''convert_currency'',
      description = ''Converts currency using latest exchange rates.'',
      parameters = [(''amount'', ''float'', ''Amount to convert''),
                    (''from_currency'', ''str'', ''Source currency code (e.g., USD)''),
                    (''to_currency'', ''str'', ''Target currency code (e.g., EUR)'')],
      func = (\<lambda>kw. bindR (bind_parameters kw) (\<lambda>(a, f, t). convert_currency env a f t))\<rparr>"

section \<open>The reflecting agent (\<^verbatim>\<open>planning/reflection/src/main.py\<close>)\<close>

text \<open>
  An \<^verbatim>\<open>Interaction\<close> without its timestamp (the wall clock is outside the model), and the
  agent: its working memory and the name of its model. This agent has no tool registry.
\<close>

record interaction =
  query :: string
  plan :: json

record rf_agent =
  interactions :: "interaction list"
  agent_model :: string

type_synonym rf_state = "rf_agent \<times> world"

definition in_world :: "(world, 'a) prog \<Rightarrow> (rf_state, 'a) prog" where
  "in_world m = (\<lambda>(ag, w). case m w of (r, w') \<Rightarrow> (r, (ag, w')))"

definition self :: "(rf_state, rf_agent) prog" where
  "self = (\<lambda>(ag, w). (Inr ag, (ag, w)))"

definition set_interactions :: "interaction list \<Rightarrow> (rf_state, unit) prog" where
  "set_interactions ixs = (\<lambda>(ag, w). (Inr (), (ag\<lparr>interactions := ixs\<rparr>, w)))"

text \<open>\<^verbatim>\<open>Agent.plan\<close>: the plan is stored in memory as soon as it is parsed.\<close>

definition rf_plan :: "env \<Rightarrow> string \<Rightarrow> (rf_state, json) prog" where
  "rf_plan env user_query =
     bindM self (\<lambda>ag.
     bindM (in_world (create env (plan_request env (agent_model ag) user_query))) (\<lambda>reply.
       case loads env reply of
         Inl _ \<Rightarrow> raiseM (ValueError ''Failed to parse LLM response as JSON'')
       | Inr p \<Rightarrow>
           bindM (set_interactions (interactions ag @ [\<lparr>query = user_query, plan = p\<rparr>])) (\<lambda>_.
             returnM p)))"

definition reflection_prompt :: "interaction \<Rightarrow> json" where
  "reflection_prompt latest_interaction =
     JObj [
       (''task'', JStr ''reflection''),
       (''context'', JObj [
          (''user_query'', JStr (query latest_interaction)),
          (''generated_plan'', plan latest_interaction)]),
       (''instructions'', JArr [
          JStr ''Review the generated plan for potential improvements'',
          JStr ''Consider if the chosen tools are appropriate'',
          JStr ''Verify tool parameters are correct'',
          JStr ''Check if the plan is efficient'',
          JStr ''Determine if tools are actually needed'']),
       (''response_format'', JObj [
          (''type'', JStr ''json''),
          (''schema'', JObj [
             (''requires_changes'', JObj [
                (''type'', JStr ''boolean''),
                (''description'', JStr ''whether the plan needs modifications'')]),
             (''reflection'', JObj [
                (''type'', JStr ''string''),
                (''description'',
                 JStr ''explanation of what changes are needed or why no changes are needed'')]),
             (''suggestions'', JObj [
                (''type'', JStr ''array''),
                (''items'', JObj [(''type'', JStr ''string'')]),
                (''description'', JStr ''specific suggestions for improvements''),
                (''optional'', JBool True)])])])]"

definition reflection_request :: "env \<Rightarrow> string \<Rightarrow> interaction \<Rightarrow> request" where
  "reflection_request env m latest_interaction =
     \<lparr>model = m,
      messages = [\<lparr>role = System, content = system_prompt env\<rparr>,
                  \<lparr>role = User, content = dumps env (Some 2) (reflection_prompt latest_interaction)\<rparr>],
      temperature = 0\<rparr>"

text \<open>\<^verbatim>\<open>Agent.reflect_on_plan\<close>\<close>

definition reflect_on_plan :: "env \<Rightarrow> (rf_state, json) prog" where
  "reflect_on_plan env =
     bindM self (\<lambda>ag.
       if interactions ag = []
       then returnM (JObj [(''reflection'', JStr ''No plan to reflect on''),
                           (''requires_changes'', JBool False)])
       else
         bindM (in_world (create env
                  (reflection_request env (agent_model ag) (last (interactions ag))))) (\<lambda>reply.
           case loads env reply of
             Inr reflection \<Rightarrow> returnM reflection
           | Inl _ \<Rightarrow> returnM (JObj [(''reflection'', JStr reply)])))"

definition revision_request :: "env \<Rightarrow> string \<Rightarrow> string \<Rightarrow> json \<Rightarrow> json \<Rightarrow> request" where
  "revision_request env m user_query initial_plan reflection =
     \<lparr>model = m,
      messages = [\<lparr>role = System, content = system_prompt env\<rparr>,
                  \<lparr>role = User, content = user_query\<rparr>,
                  \<lparr>role = Assistant, content = dumps env None initial_plan\<rparr>,
                  \<lparr>role = User, content = ''Please revise the plan based on this feedback: ''
                                          @ dumps env None reflection\<rparr>],
      temperature = 0\<rparr>"

text \<open>The branch of \<^verbatim>\<open>Agent.execute\<close> taken when the reflection asks for changes.\<close>

definition revise :: "env \<Rightarrow> string \<Rightarrow> json \<Rightarrow> json \<Rightarrow> (rf_state, json) prog" where
  "revise env user_query initial_plan reflection =
     bindM self (\<lambda>ag.
     bindM (in_world (create env
              (revision_request env (agent_model ag) user_query initial_plan reflection))) (\<lambda>reply.
       case loads env reply of
         Inr final_plan \<Rightarrow> returnM final_plan
       | Inl _ \<Rightarrow> returnM initial_plan))"

text \<open>\<^verbatim>\<open>self.interactions[-1].plan = {...}\<close>\<close>

definition final_record :: "json \<Rightarrow> json \<Rightarrow> json \<Rightarrow> json" where
  "final_record initial_plan reflection final_plan =
     JObj [(''initial_plan'', initial_plan), (''reflection'', reflection),
           (''final_plan'', final_plan)]"

definition store_outcome :: "json \<Rightarrow> (rf_state, unit) prog" where
  "store_outcome v =
     bindM self (\<lambda>ag.
       if interactions ag = [] then raiseM (IndexError ''list index out of range'')
       else set_interactions
              ((interactions ag)[length (interactions ag) - 1 := (last (interactions ag))\<lparr>plan := v\<rparr>]))"

text \<open>The two f-strings the method can return.\<close>

definition tool_summary :: "json \<Rightarrow> json \<Rightarrow> json \<Rightarrow> json result" where
  "tool_summary initial_plan reflection final_plan =
     bindR (getitem initial_plan ''thought'') (\<lambda>thought.
     bindR (getitem initial_plan ''plan'') (\<lambda>steps.
     bindR (py_join ''. '' steps) (\<lambda>initial_text.
     bindR (get reflection ''reflection'' (JStr ''No improvements suggested'')) (\<lambda>remark.
     bindR (getitem final_plan ''plan'') (\<lambda>final_steps.
     bindR (py_join ''. '' final_steps) (\<lambda>final_text.
       Inr (JStr (''Initial Thought: '' @ py_str thought @ newline
                  @ ''Initial Plan: '' @ initial_text @ newline
                  @ ''Reflection: '' @ py_str remark @ newline
                  @ ''Final Plan: '' @ final_text))))))))"

definition direct_summary :: "json \<Rightarrow> json \<Rightarrow> json result" where
  "direct_summary reflection final_plan =
     bindR (getitem final_plan ''direct_response'') (\<lambda>response.
     bindR (get reflection ''reflection'' (JStr ''No improvements suggested'')) (\<lambda>remark.
       Inr (JStr (''Response: '' @ py_str response @ newline
                  @ ''Reflection: '' @ py_str remark))))"

definition render :: "json \<Rightarrow> json \<Rightarrow> json \<Rightarrow> json result" where
  "render initial_plan reflection final_plan =
     bindR (get final_plan ''requires_tools'' (JBool True)) (\<lambda>flag.
       if truthy flag then tool_summary initial_plan reflection final_plan
       else direct_summary reflection final_plan)"

text \<open>The body of the \<^verbatim>\<open>try\<close> of \<^verbatim>\<open>Agent.execute\<close>, then the whole method.\<close>

definition rf_execute_body :: "env \<Rightarrow> string \<Rightarrow> (rf_state, json) prog" where
  "rf_execute_body env user_query =
     bindM (rf_plan env user_query) (\<lambda>initial_plan.
     bindM (reflect_on_plan env) (\<lambda>reflection.
     bindM (pureM (get reflection ''requires_changes'' (JBool False))) (\<lambda>flag.
     bindM (if truthy flag then revise env user_query initial_plan reflection
            else returnM initial_plan) (\<lambda>final_plan.
     bindM (store_outcome (final_record initial_plan reflection final_plan)) (\<lambda>_.
       pureM (render initial_plan reflection final_plan))))))"

definition rf_execute :: "env \<Rightarrow> string \<Rightarrow> (rf_state, json) prog" where
  "rf_execute env user_query =
     try_except (rf_execute_body env user_query)
       (\<lambda>e. returnM (JStr (''Error executing plan: '' @ exn_str e)))"

text \<open>A request that carries an assistant turn is a request to revise a plan.\<close>

definition is_revision_request :: "request \<Rightarrow> bool" where
  "is_revision_request req = (Assistant \<in> set (map role (messages req)))"

section \<open>Outcomes of tool calls\<close>


section \<open>Test doubles\<close>

text \<open>
  Stand-ins for the outside world, for running the agents on concrete inputs: a client that
  plays a script of replies, one per request; a parser and an endpoint that know a table of
  documents; a serialiser that prints values the way \<^verbatim>\<open>repr\<close> does.
\<close>

definition world0 :: world where
  "world0 = \<lparr>requests = [], invocations = []\<rparr>"

definition scripted_client :: "string result list \<Rightarrow> request list \<Rightarrow> request \<Rightarrow> string result" where
  "scripted_client script sent req =
     (if length sent < length script then script ! length sent
      else Inl (OtherError ''Connection error.''))"

definition table_loads :: "(string \<times> json) list \<Rightarrow> string \<Rightarrow> string + json" where
  "table_loads docs text =
     (case map_of docs text of
        Some v \<Rightarrow> Inr v
      | None \<Rightarrow> Inl ''Expecting value: line 1 column 1 (char 0)'')"

definition table_urlopen :: "(string \<times> string) list \<Rightarrow> string \<Rightarrow> string result" where
  "table_urlopen pages url =
     (case map_of pages url of
        Some body \<Rightarrow> Inr body
      | None \<Rightarrow> Inl (OtherError ''HTTP Error 404: Not Found''))"

definition stub_env :: "(string \<times> json) list \<Rightarrow> string result list \<Rightarrow> (string \<times> string) list \<Rightarrow> env" where
  "stub_env docs script pages =
     \<lparr>loads = table_loads docs, dumps = (\<lambda>indent v. repr v), client = scripted_client script,
      urlopen = table_urlopen pages, system_prompt = ''You are an AI assistant''\<rparr>"

definition greet_tool :: tool where
  "greet_tool =
     \<lparr>name = ''greet'', description = ''Greets someone.'',
      parameters = [(''who'', ''str'', ''Whom to greet'')],
      func = (\<lambda>kw. case map_of kw ''who'' of
                      Some (JStr s) \<Rightarrow> Inr (''Hello '' @ s)
                    | _ \<Rightarrow> Inl (TypeError ''greet() missing 1 required positional argument''))\<rparr>"

text \<open>The conversion of 100 USD to EUR: the model's reply, the plan it parses to, the rates.\<close>

definition usd_eur_reply :: string where
  \<open>usd_eur_reply = ''{"requires_tools": true, "thought": "...", "plan": ["..."], "tool_calls": [{"tool": "convert_currency", "args": {"amount": 100, "from_currency": "USD", "to_currency": "EUR"}}]}''\<close>

definition usd_eur_args :: kwargs where
  "usd_eur_args = [(''amount'', JInt 100), (''from_currency'', JStr ''USD''),
                   (''to_currency'', JStr ''EUR'')]"

definition usd_eur_plan :: json where
  "usd_eur_plan =
     JObj [(''requires_tools'', JBool True), (''thought'', JStr ''...''),
           (''plan'', JArr [JStr ''...'']),
           (''tool_calls'', JArr [JObj [(''tool'', JStr ''convert_currency''),
                                        (''args'', JObj usd_eur_args)]])]"

definition usd_rates_body :: string where
  \<open>usd_rates_body = ''{"rates": {"EUR": 0.9}}''\<close>

definition usd_rates :: json where
  "usd_rates = JObj [(''rates'', JObj [(''EUR'', JFloat 9 1)])]"



text \<open>A plan that first calls a tool nobody registered, then the currency tool.\<close>

definition lookup_reply :: string where
  \<open>lookup_reply = ''{"requires_tools": true, "thought": "Look the rate up, then convert", "plan": ["Look up", "Convert"], "tool_calls": [{"tool": "lookup", "args": {}}, {"tool": "convert_currency", "args": {"amount": 100, "from_currency": "USD", "to_currency": "EUR"}}]}''\<close>

definition lookup_plan :: json where
  "lookup_plan =
     JObj [(''requires_tools'', JBool True),
           (''thought'', JStr ''Look the rate up, then convert''),
           (''plan'', JArr [JStr ''Look up'', JStr ''Convert'']),
           (''tool_calls'', JArr [JObj [(''tool'', JStr ''lookup''), (''args'', JObj [])],
                                  JObj [(''tool'', JStr ''convert_currency''),
                                        (''args'', JObj usd_eur_args)]])]"

definition lookup_env :: env where
  "lookup_env =
     stub_env [(lookup_reply, lookup_plan), (usd_rates_body, usd_rates)]
       [Inr lookup_reply]
       [(''https://open.er-api.com/v6/latest/USD'', usd_rates_body)]"

definition lookup_agent :: agent where
  "lookup_agent = add_tool \<lparr>tools = []\<rparr> (convert_currency_tool lookup_env)"

text \<open>A reply that is no JSON at all, to an agent without tools.\<close>

definition chat_env :: env where
  "chat_env = stub_env [] [Inr ''I cannot help with that.''] []"




text \<open>
  Replies for the reflecting agent: a critique that asks for changes; a plan that answers
  directly and still lists a step; a plan without the \<^verbatim>\<open>requires_tools\<close> key; a plan that
  requires tools and has no \<^verbatim>\<open>thought\<close>.
\<close>

definition critique_reply :: string where
  \<open>critique_reply = ''{"requires_changes": true, "reflection": "The plan should be revised", "suggestions": ["Use fewer steps"]}''\<close>

definition critique :: json where
  "critique =
     JObj [(''requires_changes'', JBool True),
           (''reflection'', JStr ''The plan should be revised''),
           (''suggestions'', JArr [JStr ''Use fewer steps''])]"

definition greeting_reply :: string where
  \<open>greeting_reply = ''{"requires_tools": false, "direct_response": "Hello!", "plan": ["Greet the user"]}''\<close>

definition greeting_plan :: json where
  "greeting_plan =
     JObj [(''requires_tools'', JBool False), (''direct_response'', JStr ''Hello!''),
           (''plan'', JArr [JStr ''Greet the user''])]"

definition bare_reply :: string where
  \<open>bare_reply = ''{"thought": "Convert with the tool", "plan": ["Convert 100 USD to EUR"], "tool_calls": [{"tool": "convert_currency", "args": {"amount": 100, "from_currency": "USD", "to_currency": "EUR"}}]}''\<close>

definition bare_fields :: "(string \<times> json) list" where
  "bare_fields =
     [(''thought'', JStr ''Convert with the tool''),
      (''plan'', JArr [JStr ''Convert 100 USD to EUR'']),
      (''tool_calls'', JArr [JObj [(''tool'', JStr ''convert_currency''),
                                   (''args'', JObj usd_eur_args)]])]"

definition bare_plan :: json where
  "bare_plan = JObj bare_fields"

definition terse_reply :: string where
  \<open>terse_reply = ''{"requires_tools": true, "plan": ["Convert 100 USD to EUR"], "tool_calls": [{"tool": "convert_currency", "args": {"amount": 100, "from_currency": "USD", "to_currency": "EUR"}}]}''\<close>

definition terse_plan :: json where
  "terse_plan =
     JObj [(''requires_tools'', JBool True),
           (''plan'', JArr [JStr ''Convert 100 USD to EUR'']),
           (''tool_calls'', JArr [JObj [(''tool'', JStr ''convert_currency''),
                                        (''args'', JObj usd_eur_args)]])]"

definition documents :: "(string \<times> json) list" where
  "documents = [(lookup_reply, lookup_plan), (critique_reply, critique),
                (greeting_reply, greeting_plan), (bare_reply, bare_plan),
                (terse_reply, terse_plan), (usd_rates_body, usd_rates)]"

definition fresh_agent :: rf_agent where
  "fresh_agent = \<lparr>interactions = [], agent_model = ''gpt-4o-mini''\<rparr>"

text \<open>
  Runs of the reflecting agent. In the first three the model plans, asks for changes, and
  answers the request for a revision with text that is no JSON; in the fourth its critique
  is no JSON; in the last the plan has no \<^verbatim>\<open>requires_tools\<close> and the critique is no JSON.
\<close>

definition fallback_env :: env where
  "fallback_env =
     stub_env documents [Inr lookup_reply, Inr critique_reply, Inr ''I would drop a step.''] []"



definition musing_env :: env where
  "musing_env = stub_env documents [Inr lookup_reply, Inr ''The plan looks fine to me.''] []"

definition bare_env :: env where
  "bare_env =
     stub_env documents [Inr bare_reply, Inr ''The plan looks fine to me.'']
       [(''https://open.er-api.com/v6/latest/USD'', usd_rates_body)]"

definition bare_agent :: agent where
  "bare_agent = add_tool \<lparr>tools = []\<rparr> (convert_currency_tool bare_env)"

section \<open>Properties\<close>

subsection \<open>Unfolding and evaluation\<close>

lemmas py_defs = get_def getitem_def iter_def py_join_def truthy_def py_str_def type_name_def
  exn_str_def repr_str_def newline_def unpack_kwargs_def upper_def upper_char_def contains_def
  str_int_def digits.simps digit_char_def format_2f_def fixed2_def hundredths_def
  round_half_even_def as_int_def bindR_def

lemmas stub_defs = stub_env_def scripted_client_def table_loads_def table_urlopen_def world0_def

lemmas tu_defs = tu_execute_def tu_execute_body_def execute_tools_def tu_plan_def
  plan_request_def use_tool_def add_tool_def

lemmas prog_defs = bindM_def returnM_def raiseM_def pureM_def try_except_def create_def

lemma map_of_dict_set: "map_of (dict_set kvs k v) = (map_of kvs)(k \<mapsto> v)"
  by (induction kvs k v rule: dict_set.induct) auto

lemma starts_with_append: "starts_with p (p @ s)"
  by (induction p) auto


lemma tu_execute_cases:
  "tu_execute env ag q w =
     (case tu_execute_body env ag q w of
        (Inl e, w') \<Rightarrow> (Inr (JStr (''Error executing plan: '' @ exn_str e)), w')
      | (Inr v, w') \<Rightarrow> (Inr v, w'))"
  by (simp add: tu_execute_def try_except_def returnM_def split: prod.splits sum.splits)

lemma tu_plan_unparsable:
  "client env (requests w) (plan_request env ''gpt-4o-mini'' q) = Inr reply \<Longrightarrow>
   loads env reply = Inl msg \<Longrightarrow>
   tu_plan env q w = (Inl (ValueError ''Failed to parse LLM response as JSON''),
                      w\<lparr>requests := requests w @ [plan_request env ''gpt-4o-mini'' q]\<rparr>)"
  by (simp add: tu_plan_def prog_defs)

lemma tu_plan_parsed:
  "client env (requests w) (plan_request env ''gpt-4o-mini'' q) = Inr reply \<Longrightarrow>
   loads env reply = Inr p \<Longrightarrow>
   tu_plan env q w = (Inr p, w\<lparr>requests := requests w @ [plan_request env ''gpt-4o-mini'' q]\<rparr>)"
  by (simp add: tu_plan_def prog_defs)

lemma run_tool_calls_append:
  "run_tool_calls ag pre acc w = (Inr rs, w') \<Longrightarrow>
   run_tool_calls ag (pre @ rest) acc w = run_tool_calls ag rest rs w'"
proof (induction pre arbitrary: acc w)
  case Nil
  then show ?case by (simp add: returnM_def)
next
  case (Cons tc pre)
  then show ?case
    by (auto simp: bindM_def pureM_def split: sum.splits prod.splits)
qed

lemma run_tool_calls_not_found:
  "getitem tc ''tool'' = Inr (JStr n) \<Longrightarrow> getitem tc ''args'' = Inr a \<Longrightarrow>
   unpack_kwargs a = Inr kw \<Longrightarrow> map_of (tools ag) n = None \<Longrightarrow>
   run_tool_calls ag (tc # rest) acc w =
     (Inl (ValueError (''Tool '' @ repr_str n @ '' not found. Available tools: ''
            @ repr (JArr (map (\<lambda>kv. JStr (fst kv)) (tools ag))))), w)"
  by (simp add: prog_defs use_tool_def)


lemma tu_execute_raised:
  "fst (tu_execute_body env ag q w) = Inl e \<Longrightarrow>
   fst (tu_execute env ag q w) = Inr (JStr (''Error executing plan: '' @ exn_str e))"
  by (cases "tu_execute_body env ag q w") (simp add: tu_execute_cases)

lemma tu_execute_returns: "\<exists>v. fst (tu_execute env ag q w) = Inr v"
  by (cases "tu_execute_body env ag q w") (auto simp: tu_execute_cases split: sum.splits)

subsection \<open>The tool registry\<close>

text \<open>
  C1. For every registered tool and every argument mapping, \<open>use_tool\<close> with the tool's
  name hands the mapping to the tool's implementation as its keyword arguments and returns
  what the implementation returns, unchanged; this holds for a tool found under its name in
  the registry and for one just registered with \<open>add_tool\<close>. With a name that is not in
  the registry it raises the not-found \<open>ValueError\<close>, and no implementation is entered.
\<close>

theorem use_tool_dispatch:
  "(map_of (tools ag) n = Some t \<longrightarrow>
      use_tool ag (JStr n) kw w = (func t kw, w\<lparr>invocations := invocations w @ [(n, kw)]\<rparr>))
   \<and> use_tool (add_tool ag t) (JStr (name t)) kw w
       = (func t kw, w\<lparr>invocations := invocations w @ [(name t, kw)]\<rparr>)
   \<and> (map_of (tools ag) n = None \<longrightarrow>
      use_tool ag (JStr n) kw w
       = (Inl (ValueError (''Tool '' @ repr_str n @ '' not found. Available tools: ''
                @ repr (JArr (map (\<lambda>kv. JStr (fst kv)) (tools ag))))), w))"
  by (simp add: use_tool_def add_tool_def map_of_dict_set raiseM_def)

theorem use_tool_dispatch_witness:
  "map_of (tools (add_tool \<lparr>tools = []\<rparr> greet_tool)) ''greet'' = Some greet_tool
   \<and> use_tool (add_tool \<lparr>tools = []\<rparr> greet_tool) (JStr ''greet'') [(''who'', JStr ''Ann'')] world0
       = (Inr ''Hello Ann'', \<lparr>requests = [], invocations = [(''greet'', [(''who'', JStr ''Ann'')])]\<rparr>)
   \<and> map_of (tools (add_tool \<lparr>tools = []\<rparr> greet_tool)) ''missing'' = None
   \<and> use_tool (add_tool \<lparr>tools = []\<rparr> greet_tool) (JStr ''missing'') [] world0
       = (Inl (ValueError (''Tool '' @ repr_str ''missing'' @ '' not found. Available tools: [''
                            @ repr_str ''greet'' @ '']'')), world0)"
  using use_tool_dispatch [of "add_tool \<lparr>tools = []\<rparr> greet_tool" "''greet''" greet_tool
          "[(''who'', JStr ''Ann'')]" world0]
        use_tool_dispatch [of "add_tool \<lparr>tools = []\<rparr> greet_tool" "''missing''" greet_tool "[]" world0]
  by (simp add: add_tool_def greet_tool_def world0_def repr_str_def)

subsection \<open>The executor of the tool-use agent\<close>

text \<open>
  C2. \<open>tu_execute\<close> never raises. Whatever exception the body of its \<^verbatim>\<open>try\<close> raises, it
  returns the string \<^verbatim>\<open>Error executing plan: \<close> followed by the exception's text. This
  covers the \<open>ValueError\<close> that \<open>tu_plan\<close> raises when the model's reply is not valid JSON,
  and the not-found error of the registry, at whatever position of the tool calls it occurs.
\<close>

theorem tu_execute_catches:
  "(\<exists>v. fst (tu_execute env ag q w) = Inr v)
   \<and> (fst (tu_execute_body env ag q w) = Inl e \<longrightarrow>
        fst (tu_execute env ag q w) = Inr (JStr (''Error executing plan: '' @ exn_str e))
        \<and> (\<exists>s. fst (tu_execute env ag q w) = Inr (JStr s) \<and> starts_with ''Error executing plan:'' s))
   \<and> (client env (requests w) (plan_request env ''gpt-4o-mini'' q) = Inr reply
        \<and> loads env reply = Inl msg \<longrightarrow>
        fst (tu_execute env ag q w)
          = Inr (JStr ''Error executing plan: Failed to parse LLM response as JSON''))
   \<and> (client env (requests w) (plan_request env ''gpt-4o-mini'' q) = Inr reply
        \<and> loads env reply = Inr p
        \<and> get p ''requires_tools'' (JBool True) = Inr flag \<and> truthy flag
        \<and> getitem p ''tool_calls'' = Inr calls \<and> iter calls = Inr (pre @ tc # rest)
        \<and> run_tool_calls ag pre []
             (w\<lparr>requests := requests w @ [plan_request env ''gpt-4o-mini'' q]\<rparr>) = (Inr rs, w')
        \<and> getitem tc ''tool'' = Inr (JStr n) \<and> getitem tc ''args'' = Inr a
        \<and> unpack_kwargs a = Inr kw \<and> map_of (tools ag) n = None \<longrightarrow>
        fst (tu_execute env ag q w)
          = Inr (JStr (''Error executing plan: Tool '' @ repr_str n
                       @ '' not found. Available tools: ''
                       @ repr (JArr (map (\<lambda>kv. JStr (fst kv)) (tools ag))))))"
proof (intro conjI impI)
  show "\<exists>v. fst (tu_execute env ag q w) = Inr v"
    by (rule tu_execute_returns)
next
  assume "fst (tu_execute_body env ag q w) = Inl e"
  then show "fst (tu_execute env ag q w) = Inr (JStr (''Error executing plan: '' @ exn_str e))"
    by (rule tu_execute_raised)
next
  assume "fst (tu_execute_body env ag q w) = Inl e"
  then have "fst (tu_execute env ag q w) = Inr (JStr (''Error executing plan:'' @ '' '' @ exn_str e))"
    by (simp add: tu_execute_raised)
  moreover have "starts_with ''Error executing plan:'' (''Error executing plan:'' @ '' '' @ exn_str e)"
    by (rule starts_with_append)
  ultimately show "\<exists>s. fst (tu_execute env ag q w) = Inr (JStr s) \<and> starts_with ''Error executing plan:'' s"
    by blast
next
  assume "client env (requests w) (plan_request env ''gpt-4o-mini'' q) = Inr reply
        \<and> loads env reply = Inl msg"
  then have "tu_plan env q w = (Inl (ValueError ''Failed to parse LLM response as JSON''),
               w\<lparr>requests := requests w @ [plan_request env ''gpt-4o-mini'' q]\<rparr>)"
    by (simp add: tu_plan_unparsable)
  then show "fst (tu_execute env ag q w)
          = Inr (JStr ''Error executing plan: Failed to parse LLM response as JSON'')"
    by (simp add: tu_execute_cases tu_execute_body_def bindM_def exn_str_def)
next
  assume h: "client env (requests w) (plan_request env ''gpt-4o-mini'' q) = Inr reply
        \<and> loads env reply = Inr p
        \<and> get p ''requires_tools'' (JBool True) = Inr flag \<and> truthy flag
        \<and> getitem p ''tool_calls'' = Inr calls \<and> iter calls = Inr (pre @ tc # rest)
        \<and> run_tool_calls ag pre []
             (w\<lparr>requests := requests w @ [plan_request env ''gpt-4o-mini'' q]\<rparr>) = (Inr rs, w')
        \<and> getitem tc ''tool'' = Inr (JStr n) \<and> getitem tc ''args'' = Inr a
        \<and> unpack_kwargs a = Inr kw \<and> map_of (tools ag) n = None"
  let ?w1 = "w\<lparr>requests := requests w @ [plan_request env ''gpt-4o-mini'' q]\<rparr>"
  let ?e = "ValueError (''Tool '' @ repr_str n @ '' not found. Available tools: ''
                       @ repr (JArr (map (\<lambda>kv. JStr (fst kv)) (tools ag))))"
  from h have plan: "tu_plan env q w = (Inr p, ?w1)"
    by (simp add: tu_plan_parsed)
  from h have "run_tool_calls ag (pre @ tc # rest) [] ?w1 = run_tool_calls ag (tc # rest) rs w'"
    by (simp add: run_tool_calls_append)
  also have "\<dots> = (Inl ?e, w')"
    by (rule run_tool_calls_not_found [where a = a and kw = kw]) (use h in simp_all)
  finally have loop: "run_tool_calls ag (pre @ tc # rest) [] ?w1 = (Inl ?e, w')" .
  from h loop have "execute_tools ag p ?w1 = (Inl ?e, w')"
    by (simp add: execute_tools_def bindM_def pureM_def)
  with plan h have "tu_execute_body env ag q w = (Inl ?e, w')"
    by (simp add: tu_execute_body_def bindM_def pureM_def)
  then show "fst (tu_execute env ag q w)
          = Inr (JStr (''Error executing plan: Tool '' @ repr_str n
                       @ '' not found. Available tools: ''
                       @ repr (JArr (map (\<lambda>kv. JStr (fst kv)) (tools ag)))))"
    by (simp add: tu_execute_cases exn_str_def)
qed

theorem tu_execute_catches_witness:
  "client chat_env (requests world0) (plan_request chat_env ''gpt-4o-mini'' ''Hi'')
     = Inr ''I cannot help with that.''
   \<and> loads chat_env ''I cannot help with that.'' = Inl ''Expecting value: line 1 column 1 (char 0)''
   \<and> fst (tu_execute_body chat_env \<lparr>tools = []\<rparr> ''Hi'' world0)
       = Inl (ValueError ''Failed to parse LLM response as JSON'')
   \<and> fst (tu_execute chat_env \<lparr>tools = []\<rparr> ''Hi'' world0)
       = Inr (JStr ''Error executing plan: Failed to parse LLM response as JSON'')
   \<and> starts_with ''Error executing plan:''
        ''Error executing plan: Failed to parse LLM response as JSON''
   \<and> client lookup_env (requests world0) (plan_request lookup_env ''gpt-4o-mini'' ''Convert'')
       = Inr lookup_reply
   \<and> loads lookup_env lookup_reply = Inr lookup_plan
   \<and> get lookup_plan ''requires_tools'' (JBool True) = Inr (JBool True) \<and> truthy (JBool True)
   \<and> iter (JArr [JObj [(''tool'', JStr ''lookup''), (''args'', JObj [])],
                 JObj [(''tool'', JStr ''convert_currency''), (''args'', JObj usd_eur_args)]])
       = Inr ([] @ JObj [(''tool'', JStr ''lookup''), (''args'', JObj [])]
               # [JObj [(''tool'', JStr ''convert_currency''), (''args'', JObj usd_eur_args)]])
   \<and> unpack_kwargs (JObj []) = Inr []
   \<and> map_of (tools lookup_agent) ''lookup'' = None
   \<and> fst (tu_execute lookup_env lookup_agent ''Convert'' world0)
       = Inr (JStr (''Error executing plan: Tool '' @ repr_str ''lookup''
                    @ '' not found. Available tools: ['' @ repr_str ''convert_currency'' @ '']''))"
  using tu_execute_catches [where env = chat_env and ag = "\<lparr>tools = []\<rparr>" and q = "''Hi''"
          and w = world0 and e = "ValueError ''Failed to parse LLM response as JSON''"
          and reply = "''I cannot help with that.''"
          and msg = "''Expecting value: line 1 column 1 (char 0)''"]
        tu_execute_catches [where env = lookup_env and ag = lookup_agent and q = "''Convert''"
          and w = world0 and reply = lookup_reply and p = lookup_plan and flag = "JBool True"
          and calls = "JArr [JObj [(''tool'', JStr ''lookup''), (''args'', JObj [])],
                 JObj [(''tool'', JStr ''convert_currency''), (''args'', JObj usd_eur_args)]]"
          and pre = "[]" and tc = "JObj [(''tool'', JStr ''lookup''), (''args'', JObj [])]"
          and rest = "[JObj [(''tool'', JStr ''convert_currency''), (''args'', JObj usd_eur_args)]]"
          and rs = "[]"
          and w' = "world0\<lparr>requests := requests world0 @ [plan_request lookup_env ''gpt-4o-mini'' ''Convert'']\<rparr>"
          and n = "''lookup''" and a = "JObj []" and kw = "[]"]
  by (simp add: chat_env_def lookup_env_def lookup_agent_def lookup_plan_def lookup_reply_def
        stub_defs tu_defs prog_defs py_defs convert_currency_tool_def)

subsection \<open>Running the tool calls of a plan\<close>








subsection \<open>The currency tool\<close>











subsection \<open>The reflecting agent\<close>

text \<open>Each method as one equation on the state, then what a run does to the world.\<close>

lemmas rf_prog_defs = in_world_def self_def set_interactions_def

lemma rf_plan_eq:
  "rf_plan env q (ag, w) =
     (case client env (requests w) (plan_request env (agent_model ag) q) of
        Inl e \<Rightarrow> (Inl e, (ag, w\<lparr>requests := requests w @ [plan_request env (agent_model ag) q]\<rparr>))
      | Inr reply \<Rightarrow>
          (case loads env reply of
             Inl msg \<Rightarrow> (Inl (ValueError ''Failed to parse LLM response as JSON''),
                         (ag, w\<lparr>requests := requests w @ [plan_request env (agent_model ag) q]\<rparr>))
           | Inr p \<Rightarrow> (Inr p, (ag\<lparr>interactions := interactions ag @ [\<lparr>query = q, plan = p\<rparr>]\<rparr>,
                         w\<lparr>requests := requests w @ [plan_request env (agent_model ag) q]\<rparr>))))"
  by (simp add: rf_plan_def prog_defs rf_prog_defs split: sum.splits)

lemma reflect_on_plan_eq:
  "reflect_on_plan env (ag, w) =
     (if interactions ag = []
      then (Inr (JObj [(''reflection'', JStr ''No plan to reflect on''),
                       (''requires_changes'', JBool False)]), (ag, w))
      else
        (case client env (requests w)
                (reflection_request env (agent_model ag) (last (interactions ag))) of
           Inl e \<Rightarrow> (Inl e, (ag, w\<lparr>requests := requests w
                         @ [reflection_request env (agent_model ag) (last (interactions ag))]\<rparr>))
         | Inr reply \<Rightarrow>
             (Inr (case loads env reply of Inl msg \<Rightarrow> JObj [(''reflection'', JStr reply)]
                   | Inr reflection \<Rightarrow> reflection),
              (ag, w\<lparr>requests := requests w
                     @ [reflection_request env (agent_model ag) (last (interactions ag))]\<rparr>))))"
  by (simp add: reflect_on_plan_def prog_defs rf_prog_defs split: sum.splits)

lemma revise_eq:
  "revise env q initial_plan reflection (ag, w) =
     (case client env (requests w)
             (revision_request env (agent_model ag) q initial_plan reflection) of
        Inl e \<Rightarrow> (Inl e, (ag, w\<lparr>requests := requests w
                      @ [revision_request env (agent_model ag) q initial_plan reflection]\<rparr>))
      | Inr reply \<Rightarrow>
          (Inr (case loads env reply of Inl msg \<Rightarrow> initial_plan | Inr final_plan \<Rightarrow> final_plan),
           (ag, w\<lparr>requests := requests w
                  @ [revision_request env (agent_model ag) q initial_plan reflection]\<rparr>)))"
  by (simp add: revise_def prog_defs rf_prog_defs split: sum.splits)

lemma store_outcome_eq:
  "store_outcome v (ag, w) =
     (if interactions ag = [] then (Inl (IndexError ''list index out of range''), (ag, w))
      else (Inr (), (ag\<lparr>interactions := (interactions ag)
                       [length (interactions ag) - 1 := (last (interactions ag))\<lparr>plan := v\<rparr>]\<rparr>, w)))"
  by (simp add: store_outcome_def prog_defs rf_prog_defs)

lemma rf_execute_cases:
  "rf_execute env q s =
     (case rf_execute_body env q s of
        (Inl e, s') \<Rightarrow> (Inr (JStr (''Error executing plan: '' @ exn_str e)), s')
      | (Inr v, s') \<Rightarrow> (Inr v, s'))"
  by (simp add: rf_execute_def try_except_def returnM_def split: prod.splits sum.splits)

lemma rf_execute_world: "snd (snd (rf_execute env q s)) = snd (snd (rf_execute_body env q s))"
  by (simp add: rf_execute_cases split: prod.splits sum.splits)

text \<open>What each step does to the world.\<close>

lemma rf_plan_world:
  assumes "rf_plan env q (ag, w) = (r, (ag', w'))"
  shows "w' = w\<lparr>requests := requests w @ [plan_request env (agent_model ag) q]\<rparr>
         \<and> agent_model ag' = agent_model ag"
  using assms by (auto simp: rf_plan_eq split: sum.splits)

lemma reflect_on_plan_world:
  assumes "reflect_on_plan env (ag, w) = (r, (ag', w'))"
  shows "ag' = ag \<and> (w' = w \<or> w' = w\<lparr>requests := requests w
           @ [reflection_request env (agent_model ag) (last (interactions ag))]\<rparr>)"
  using assms by (auto simp: reflect_on_plan_eq split: sum.splits if_splits)

lemma rf_plan_stores:
  assumes "rf_plan env q (ag, w) = (Inr p, (ag', w'))"
  shows "interactions ag' = interactions ag @ [\<lparr>query = q, plan = p\<rparr>]"
  using assms by (auto simp: rf_plan_eq split: sum.splits)

lemma reflect_on_plan_asks:
  assumes "interactions ag \<noteq> []" and "reflect_on_plan env (ag, w) = (r, (ag', w'))"
  shows "ag' = ag \<and> w' = w\<lparr>requests := requests w
           @ [reflection_request env (agent_model ag) (last (interactions ag))]\<rparr>"
  using assms by (auto simp: reflect_on_plan_eq split: sum.splits)

lemma revise_world:
  assumes "revise env q ip rf (ag, w) = (r, (ag', w'))"
  shows "ag' = ag \<and> w' = w\<lparr>requests := requests w
           @ [revision_request env (agent_model ag) q ip rf]\<rparr>"
  using assms by (auto simp: revise_eq split: sum.splits)

lemma store_outcome_world:
  assumes "store_outcome v (ag, w) = (r, (ag', w'))"
  shows "w' = w \<and> agent_model ag' = agent_model ag"
  using assms by (auto simp: store_outcome_eq split: if_splits)

lemma plan_request_no_revision: "\<not> is_revision_request (plan_request env m q)"
  by (simp add: is_revision_request_def plan_request_def)

lemma reflection_request_no_revision: "\<not> is_revision_request (reflection_request env m i)"
  by (simp add: is_revision_request_def reflection_request_def)

lemma revision_request_is_revision: "is_revision_request (revision_request env m q ip rf)"
  by (simp add: is_revision_request_def revision_request_def)

text \<open>The requests a run of the body adds: one of three shapes.\<close>

lemma rf_execute_body_world:
  "\<exists>refl rev.
     \<not> is_revision_request refl \<and>
     (snd (snd (rf_execute_body env q (ag, w)))
        = w\<lparr>requests := requests w @ [plan_request env (agent_model ag) q]\<rparr>
      \<or> snd (snd (rf_execute_body env q (ag, w)))
        = w\<lparr>requests := requests w @ [plan_request env (agent_model ag) q, refl]\<rparr>
      \<or> snd (snd (rf_execute_body env q (ag, w)))
        = w\<lparr>requests := requests w @ [plan_request env (agent_model ag) q, refl, rev]\<rparr>)"
proof -
  let ?P = "plan_request env (agent_model ag) q"
  obtain r1 ag1 w1 where p: "rf_plan env q (ag, w) = (r1, (ag1, w1))"
    by (metis prod.exhaust)
  then have w1: "w1 = w\<lparr>requests := requests w @ [?P]\<rparr>"
    using rf_plan_world by blast
  let ?R = "reflection_request env (agent_model ag1) (last (interactions ag1))"
  have nR: "\<not> is_revision_request ?R" by (rule reflection_request_no_revision)
  show ?thesis
  proof (cases r1)
    case (Inl e)
    with p w1 have "snd (snd (rf_execute_body env q (ag, w))) = w\<lparr>requests := requests w @ [?P]\<rparr>"
      by (simp add: rf_execute_body_def bindM_def)
    with nR show ?thesis by blast
  next
    case (Inr ip)
    with p have "interactions ag1 \<noteq> []"
      using rf_plan_stores by fastforce
    moreover obtain r2 ag2 w2 where r: "reflect_on_plan env (ag1, w1) = (r2, (ag2, w2))"
      by (metis prod.exhaust)
    ultimately have ag2: "ag2 = ag1" and w2: "w2 = w1\<lparr>requests := requests w1 @ [?R]\<rparr>"
      using reflect_on_plan_asks by blast+
    from w1 w2 have w2': "w2 = w\<lparr>requests := requests w @ [?P, ?R]\<rparr>"
      by simp
    show ?thesis
    proof (cases r2)
      case (Inl e)
      with p r Inr have "snd (snd (rf_execute_body env q (ag, w))) = w2"
        by (simp add: rf_execute_body_def bindM_def)
      with w2' nR show ?thesis by metis
    next
      case rf: (Inr rf)
      show ?thesis
      proof (cases "get rf ''requires_changes'' (JBool False)")
        case (Inl e)
        with p r Inr rf have "snd (snd (rf_execute_body env q (ag, w))) = w2"
          by (simp add: rf_execute_body_def bindM_def pureM_def)
        with w2' nR show ?thesis by metis
      next
        case flag: (Inr flag)
        show ?thesis
        proof (cases "truthy flag")
          case False
          obtain r4 ag4 w4 where s: "store_outcome (final_record ip rf ip) (ag2, w2) = (r4, (ag4, w4))"
            by (metis prod.exhaust)
          then have "w4 = w2" using store_outcome_world by blast
          with p r Inr rf flag False s
          have "snd (snd (rf_execute_body env q (ag, w))) = w2"
            by (simp add: rf_execute_body_def bindM_def pureM_def returnM_def split: sum.splits)
          with w2' nR show ?thesis by metis
        next
          case True
          let ?V = "revision_request env (agent_model ag2) q ip rf"
          obtain r3 ag3 w3 where v: "revise env q ip rf (ag2, w2) = (r3, (ag3, w3))"
            by (metis prod.exhaust)
          then have w3: "w3 = w2\<lparr>requests := requests w2 @ [?V]\<rparr>"
            using revise_world by blast
          have "snd (snd (rf_execute_body env q (ag, w))) = w3"
          proof (cases r3)
            case (Inl e)
            with p r Inr rf flag True v show ?thesis
              by (simp add: rf_execute_body_def bindM_def pureM_def)
          next
            case fp: (Inr fp)
            obtain r4 ag4 w4 where s: "store_outcome (final_record ip rf fp) (ag3, w3) = (r4, (ag4, w4))"
              by (metis prod.exhaust)
            then have "w4 = w3" using store_outcome_world by blast
            with p r Inr rf flag True v fp s show ?thesis
              by (simp add: rf_execute_body_def bindM_def pureM_def split: sum.splits)
          qed
          with w3 w2' have "snd (snd (rf_execute_body env q (ag, w)))
                = w\<lparr>requests := requests w @ [?P, ?R, ?V]\<rparr>"
            by simp
          with nR show ?thesis by blast
        qed
      qed
    qed
  qed
qed


lemma last_interaction_update:
  "(ixs @ [i])[length (ixs @ [i]) - 1 := (last (ixs @ [i]))\<lparr>plan := v\<rparr>] = ixs @ [i\<lparr>plan := v\<rparr>]"
  by simp

lemma rf_run_unchanged:
  assumes "client env (requests w) (plan_request env (agent_model ag) q) = Inr plan_reply"
    and "loads env plan_reply = Inr p"
    and "client env (requests w @ [plan_request env (agent_model ag) q])
           (reflection_request env (agent_model ag) \<lparr>query = q, plan = p\<rparr>) = Inr critique_text"
    and "r = (case loads env critique_text of Inl msg \<Rightarrow> JObj [(''reflection'', JStr critique_text)] | Inr v \<Rightarrow> v)"
    and "get r ''requires_changes'' (JBool False) = Inr flag" and "\<not> truthy flag"
  shows "rf_execute_body env q (ag, w) =
     (render p r p,
      (ag\<lparr>interactions := interactions ag @ [\<lparr>query = q, plan = final_record p r p\<rparr>]\<rparr>,
       w\<lparr>requests := requests w @ [plan_request env (agent_model ag) q,
            reflection_request env (agent_model ag) \<lparr>query = q, plan = p\<rparr>]\<rparr>))"
  using assms
  by (simp add: rf_execute_body_def bindM_def pureM_def returnM_def rf_plan_eq
        reflect_on_plan_eq store_outcome_eq)



lemmas doc_defs = documents_def lookup_reply_def lookup_plan_def critique_reply_def critique_def
  greeting_reply_def greeting_plan_def bare_reply_def bare_plan_def bare_fields_def terse_reply_def
  terse_plan_def usd_eur_reply_def usd_eur_plan_def usd_rates_body_def usd_rates_def
  usd_eur_args_def fresh_agent_def

text \<open>
  C5. A run of \<open>rf_execute\<close> sends at most three requests to the model, at most one of
  them a request to revise the plan, and when there is one it is the last request of the
  run: nothing is asked after it, whatever the revised plan says.
\<close>

theorem rf_execute_one_revision:
  "\<exists>new. requests (snd (snd (rf_execute env q (ag, w)))) = requests w @ new
      \<and> length new \<le> 3
      \<and> length (filter is_revision_request new) \<le> 1
      \<and> filter is_revision_request (butlast new) = []"
proof -
  let ?P = "plan_request env (agent_model ag) q"
  let ?w' = "snd (snd (rf_execute_body env q (ag, w)))"
  have nP: "\<not> is_revision_request ?P" by (rule plan_request_no_revision)
  obtain refl rev where nR: "\<not> is_revision_request refl"
    and shape: "?w' = w\<lparr>requests := requests w @ [?P]\<rparr>
      \<or> ?w' = w\<lparr>requests := requests w @ [?P, refl]\<rparr>
      \<or> ?w' = w\<lparr>requests := requests w @ [?P, refl, rev]\<rparr>"
    using rf_execute_body_world [of env q ag w] by blast
  from shape consider
      (planned) "requests ?w' = requests w @ [?P]"
    | (reflected) "requests ?w' = requests w @ [?P, refl]"
    | (revised) "requests ?w' = requests w @ [?P, refl, rev]"
    by auto
  then show ?thesis
  proof cases
    case planned
    with nP show ?thesis by (simp add: rf_execute_world)
  next
    case reflected
    with nP nR show ?thesis by (simp add: rf_execute_world)
  next
    case revised
    with nP nR show ?thesis by (simp add: rf_execute_world)
  qed
qed

text \<open>
  C7. A run of \<open>rf_execute\<close> enters no tool implementation: the trace of invocations is
  after the run what it was before, for every query and every behaviour of the model, the
  runs whose final plan requires tools included.
\<close>

theorem rf_execute_enters_no_tool:
  "invocations (snd (snd (rf_execute env q (ag, w)))) = invocations w"
proof -
  obtain refl rev where
    "snd (snd (rf_execute_body env q (ag, w)))
        = w\<lparr>requests := requests w @ [plan_request env (agent_model ag) q]\<rparr>
      \<or> snd (snd (rf_execute_body env q (ag, w)))
        = w\<lparr>requests := requests w @ [plan_request env (agent_model ag) q, refl]\<rparr>
      \<or> snd (snd (rf_execute_body env q (ag, w)))
        = w\<lparr>requests := requests w @ [plan_request env (agent_model ag) q, refl, rev]\<rparr>"
    using rf_execute_body_world [of env q ag w] by blast
  then have "invocations (snd (snd (rf_execute_body env q (ag, w)))) = invocations w"
    by auto
  then show ?thesis by (simp add: rf_execute_world)
qed

text \<open>
  C8. With no interaction in memory, \<open>reflect_on_plan\<close> returns the reflection
  \<^verbatim>\<open>No plan to reflect on\<close> with \<^verbatim>\<open>requires_changes\<close> false, and leaves the agent and the
  world as they were: no request is sent to the model.
\<close>

theorem reflect_on_plan_empty_memory:
  "interactions ag = [] \<Longrightarrow>
   reflect_on_plan env (ag, w)
     = (Inr (JObj [(''reflection'', JStr ''No plan to reflect on''),
                   (''requires_changes'', JBool False)]), (ag, w))
   \<and> getitem (JObj [(''reflection'', JStr ''No plan to reflect on''),
                    (''requires_changes'', JBool False)]) ''requires_changes'' = Inr (JBool False)
   \<and> requests (snd (snd (reflect_on_plan env (ag, w)))) = requests w"
  by (simp add: reflect_on_plan_eq getitem_def)

theorem reflect_on_plan_empty_memory_witness:
  "interactions fresh_agent = []
   \<and> reflect_on_plan fallback_env (fresh_agent, world0)
     = (Inr (JObj [(''reflection'', JStr ''No plan to reflect on''),
                   (''requires_changes'', JBool False)]), (fresh_agent, world0))
   \<and> requests (snd (snd (reflect_on_plan fallback_env (fresh_agent, world0)))) = []"
  using reflect_on_plan_empty_memory [of fresh_agent fallback_env world0]
  by (simp add: fresh_agent_def world0_def)

text \<open>
  C9. When the model's reply to the reflection request is not valid JSON,
  \<open>reflect_on_plan\<close> returns (it does not raise) the reflection whose only field is
  \<^verbatim>\<open>reflection\<close>, holding the reply's text; \<^verbatim>\<open>requires_changes\<close> is absent and reads as
  false under the executor's default. A run of \<open>rf_execute\<close> then sends the planning and
  the reflection request and no request to revise, and stores the initial plan as the final
  one.
\<close>

theorem reflect_on_plan_unparsable:
  "(interactions ag \<noteq> []
    \<and> client env (requests w)
        (reflection_request env (agent_model ag) (last (interactions ag))) = Inr reply
    \<and> loads env reply = Inl msg \<longrightarrow>
    fst (reflect_on_plan env (ag, w)) = Inr (JObj [(''reflection'', JStr reply)])
    \<and> getitem (JObj [(''reflection'', JStr reply)]) ''requires_changes''
        = Inl (KeyError ''requires_changes'')
    \<and> get (JObj [(''reflection'', JStr reply)]) ''requires_changes'' (JBool False)
        = Inr (JBool False))
   \<and> (client env (requests w) (plan_request env (agent_model ag) q) = Inr plan_reply
    \<and> loads env plan_reply = Inr p
    \<and> client env (requests w @ [plan_request env (agent_model ag) q])
        (reflection_request env (agent_model ag) \<lparr>query = q, plan = p\<rparr>) = Inr reply
    \<and> loads env reply = Inl msg \<longrightarrow>
    requests (snd (snd (rf_execute env q (ag, w))))
      = requests w @ [plan_request env (agent_model ag) q,
                      reflection_request env (agent_model ag) \<lparr>query = q, plan = p\<rparr>]
    \<and> filter is_revision_request
        [plan_request env (agent_model ag) q,
         reflection_request env (agent_model ag) \<lparr>query = q, plan = p\<rparr>] = []
    \<and> interactions (fst (snd (rf_execute env q (ag, w))))
      = interactions ag
        @ [\<lparr>query = q, plan = final_record p (JObj [(''reflection'', JStr reply)]) p\<rparr>])"
proof (intro conjI impI)
  assume h: "interactions ag \<noteq> []
    \<and> client env (requests w)
        (reflection_request env (agent_model ag) (last (interactions ag))) = Inr reply
    \<and> loads env reply = Inl msg"
  then show "fst (reflect_on_plan env (ag, w)) = Inr (JObj [(''reflection'', JStr reply)])"
    by (simp add: reflect_on_plan_eq)
  show "getitem (JObj [(''reflection'', JStr reply)]) ''requires_changes''
        = Inl (KeyError ''requires_changes'')"
    by (simp add: getitem_def)
  show "get (JObj [(''reflection'', JStr reply)]) ''requires_changes'' (JBool False)
        = Inr (JBool False)"
    by (simp add: get_def)
next
  assume h: "client env (requests w) (plan_request env (agent_model ag) q) = Inr plan_reply
    \<and> loads env plan_reply = Inr p
    \<and> client env (requests w @ [plan_request env (agent_model ag) q])
        (reflection_request env (agent_model ag) \<lparr>query = q, plan = p\<rparr>) = Inr reply
    \<and> loads env reply = Inl msg"
  let ?r = "JObj [(''reflection'', JStr reply)]"
  have run: "rf_execute_body env q (ag, w) =
     (render p ?r p,
      (ag\<lparr>interactions := interactions ag @ [\<lparr>query = q, plan = final_record p ?r p\<rparr>]\<rparr>,
       w\<lparr>requests := requests w @ [plan_request env (agent_model ag) q,
            reflection_request env (agent_model ag) \<lparr>query = q, plan = p\<rparr>]\<rparr>))"
    by (rule rf_run_unchanged [where plan_reply = plan_reply and critique_text = reply and flag = "JBool False"])
       (use h in \<open>simp_all add: get_def truthy_def\<close>)
  show "requests (snd (snd (rf_execute env q (ag, w))))
      = requests w @ [plan_request env (agent_model ag) q,
                      reflection_request env (agent_model ag) \<lparr>query = q, plan = p\<rparr>]"
    by (simp add: rf_execute_world run)
  show "filter is_revision_request
        [plan_request env (agent_model ag) q,
         reflection_request env (agent_model ag) \<lparr>query = q, plan = p\<rparr>] = []"
    by (simp add: plan_request_no_revision reflection_request_no_revision)
  show "interactions (fst (snd (rf_execute env q (ag, w))))
      = interactions ag @ [\<lparr>query = q, plan = final_record p ?r p\<rparr>]"
    by (cases "render p ?r p") (simp_all add: rf_execute_cases run)
qed

theorem reflect_on_plan_unparsable_witness:
  "interactions \<lparr>interactions = [\<lparr>query = ''Hi'', plan = lookup_plan\<rparr>], agent_model = ''gpt-4o-mini''\<rparr> \<noteq> []
   \<and> client musing_env [plan_request musing_env ''gpt-4o-mini'' ''Hi'']
        (reflection_request musing_env ''gpt-4o-mini'' \<lparr>query = ''Hi'', plan = lookup_plan\<rparr>)
       = Inr ''The plan looks fine to me.''
   \<and> loads musing_env ''The plan looks fine to me.''
       = Inl ''Expecting value: line 1 column 1 (char 0)''
   \<and> fst (reflect_on_plan musing_env
        (\<lparr>interactions = [\<lparr>query = ''Hi'', plan = lookup_plan\<rparr>], agent_model = ''gpt-4o-mini''\<rparr>,
         \<lparr>requests = [plan_request musing_env ''gpt-4o-mini'' ''Hi''], invocations = []\<rparr>))
       = Inr (JObj [(''reflection'', JStr ''The plan looks fine to me.'')])
   \<and> client musing_env (requests world0) (plan_request musing_env ''gpt-4o-mini'' ''Hi'')
       = Inr lookup_reply
   \<and> loads musing_env lookup_reply = Inr lookup_plan
   \<and> requests (snd (snd (rf_execute musing_env ''Hi'' (fresh_agent, world0))))
       = [plan_request musing_env ''gpt-4o-mini'' ''Hi'',
          reflection_request musing_env ''gpt-4o-mini'' \<lparr>query = ''Hi'', plan = lookup_plan\<rparr>]
   \<and> interactions (fst (snd (rf_execute musing_env ''Hi'' (fresh_agent, world0))))
       = [\<lparr>query = ''Hi'',
           plan = final_record lookup_plan
                    (JObj [(''reflection'', JStr ''The plan looks fine to me.'')]) lookup_plan\<rparr>]"
  using reflect_on_plan_unparsable [where env = musing_env
          and ag = "\<lparr>interactions = [\<lparr>query = ''Hi'', plan = lookup_plan\<rparr>], agent_model = ''gpt-4o-mini''\<rparr>"
          and w = "\<lparr>requests = [plan_request musing_env ''gpt-4o-mini'' ''Hi''], invocations = []\<rparr>"
          and reply = "''The plan looks fine to me.''"
          and msg = "''Expecting value: line 1 column 1 (char 0)''"]
        reflect_on_plan_unparsable [where env = musing_env and ag = fresh_agent and w = world0
          and q = "''Hi''" and plan_reply = lookup_reply and p = lookup_plan
          and reply = "''The plan looks fine to me.''"
          and msg = "''Expecting value: line 1 column 1 (char 0)''"]
  by (simp add: musing_env_def stub_defs doc_defs)




subsection \<open>The default of \<^verbatim>\<open>requires_tools\<close>\<close>

text \<open>
  C10. A plan that is a dict without the key \<^verbatim>\<open>requires_tools\<close> is treated as requiring
  tools by both agents: the flag reads as true; the tool-use agent goes on to run the tool
  calls and does not return a direct response; the reflecting agent, where such a plan is
  the final plan, renders the summary of a plan with tools, also over a whole run in which
  no change was asked for.
\<close>

theorem requires_tools_defaults_to_true:
  "(map_of kvs ''requires_tools'' = None \<longrightarrow>
      get (JObj kvs) ''requires_tools'' (JBool True) = Inr (JBool True))
   \<and> (client env (requests w) (plan_request env ''gpt-4o-mini'' q) = Inr reply
       \<and> loads env reply = Inr (JObj kvs) \<and> map_of kvs ''requires_tools'' = None \<longrightarrow>
       tu_execute_body env ag q w
         = execute_tools ag (JObj kvs)
             (w\<lparr>requests := requests w @ [plan_request env ''gpt-4o-mini'' q]\<rparr>))
   \<and> (map_of kvs ''requires_tools'' = None \<longrightarrow>
       render initial_plan reflection (JObj kvs)
         = tool_summary initial_plan reflection (JObj kvs))
   \<and> (client env' (requests w) (plan_request env' (agent_model rag) q) = Inr plan_reply
       \<and> loads env' plan_reply = Inr (JObj kvs) \<and> map_of kvs ''requires_tools'' = None
       \<and> client env' (requests w @ [plan_request env' (agent_model rag) q])
            (reflection_request env' (agent_model rag) \<lparr>query = q, plan = JObj kvs\<rparr>)
           = Inr critique_text
       \<and> r = (case loads env' critique_text of
                Inl msg \<Rightarrow> JObj [(''reflection'', JStr critique_text)] | Inr v \<Rightarrow> v)
       \<and> get r ''requires_changes'' (JBool False) = Inr flag \<and> \<not> truthy flag \<longrightarrow>
       fst (rf_execute env' q (rag, w))
         = (case tool_summary (JObj kvs) r (JObj kvs) of
              Inl e \<Rightarrow> Inr (JStr (''Error executing plan: '' @ exn_str e))
            | Inr text \<Rightarrow> Inr text))"
proof (intro conjI impI)
  assume "map_of kvs ''requires_tools'' = None"
  then show "get (JObj kvs) ''requires_tools'' (JBool True) = Inr (JBool True)"
    by (simp add: get_def)
next
  assume h: "client env (requests w) (plan_request env ''gpt-4o-mini'' q) = Inr reply
       \<and> loads env reply = Inr (JObj kvs) \<and> map_of kvs ''requires_tools'' = None"
  then have "tu_plan env q w
      = (Inr (JObj kvs), w\<lparr>requests := requests w @ [plan_request env ''gpt-4o-mini'' q]\<rparr>)"
    by (simp add: tu_plan_parsed)
  with h show "tu_execute_body env ag q w
         = execute_tools ag (JObj kvs)
             (w\<lparr>requests := requests w @ [plan_request env ''gpt-4o-mini'' q]\<rparr>)"
    by (simp add: tu_execute_body_def bindM_def pureM_def get_def truthy_def)
next
  assume "map_of kvs ''requires_tools'' = None"
  then show "render initial_plan reflection (JObj kvs)
         = tool_summary initial_plan reflection (JObj kvs)"
    by (simp add: render_def bindR_def get_def truthy_def)
next
  assume h: "client env' (requests w) (plan_request env' (agent_model rag) q) = Inr plan_reply
       \<and> loads env' plan_reply = Inr (JObj kvs) \<and> map_of kvs ''requires_tools'' = None
       \<and> client env' (requests w @ [plan_request env' (agent_model rag) q])
            (reflection_request env' (agent_model rag) \<lparr>query = q, plan = JObj kvs\<rparr>)
           = Inr critique_text
       \<and> r = (case loads env' critique_text of
                Inl msg \<Rightarrow> JObj [(''reflection'', JStr critique_text)] | Inr v \<Rightarrow> v)
       \<and> get r ''requires_changes'' (JBool False) = Inr flag \<and> \<not> truthy flag"
  have run: "rf_execute_body env' q (rag, w) =
     (render (JObj kvs) r (JObj kvs),
      (rag\<lparr>interactions := interactions rag
             @ [\<lparr>query = q, plan = final_record (JObj kvs) r (JObj kvs)\<rparr>]\<rparr>,
       w\<lparr>requests := requests w @ [plan_request env' (agent_model rag) q,
            reflection_request env' (agent_model rag) \<lparr>query = q, plan = JObj kvs\<rparr>]\<rparr>))"
    by (rule rf_run_unchanged [where plan_reply = plan_reply and critique_text = critique_text
          and flag = flag])
       (use h in blast)+
  from h have "render (JObj kvs) r (JObj kvs) = tool_summary (JObj kvs) r (JObj kvs)"
    by (simp add: render_def bindR_def get_def truthy_def)
  with run show "fst (rf_execute env' q (rag, w))
         = (case tool_summary (JObj kvs) r (JObj kvs) of
              Inl e \<Rightarrow> Inr (JStr (''Error executing plan: '' @ exn_str e))
            | Inr text \<Rightarrow> Inr text)"
    by (cases "tool_summary (JObj kvs) r (JObj kvs)") (simp_all add: rf_execute_cases)
qed

theorem requires_tools_defaults_to_true_witness:
  "map_of bare_fields ''requires_tools'' = None
   \<and> get (JObj bare_fields) ''requires_tools'' (JBool True) = Inr (JBool True)
   \<and> client bare_env (requests world0) (plan_request bare_env ''gpt-4o-mini'' ''Convert'')
       = Inr bare_reply
   \<and> loads bare_env bare_reply = Inr (JObj bare_fields)
   \<and> tu_execute_body bare_env bare_agent ''Convert'' world0
       = execute_tools bare_agent (JObj bare_fields)
           (world0\<lparr>requests := requests world0 @ [plan_request bare_env ''gpt-4o-mini'' ''Convert'']\<rparr>)
   \<and> fst (tu_execute bare_env bare_agent ''Convert'' world0)
       = Inr (JStr (''Thought: Convert with the tool'' @ newline
                    @ ''Plan: Convert 100 USD to EUR'' @ newline
                    @ ''Results: 100 USD = 90.00 EUR''))
   \<and> invocations (snd (tu_execute bare_env bare_agent ''Convert'' world0))
       = [(''convert_currency'', usd_eur_args)]
   \<and> client bare_env (requests world0)
        (plan_request bare_env (agent_model fresh_agent) ''Convert'') = Inr bare_reply
   \<and> client bare_env
        (requests world0 @ [plan_request bare_env (agent_model fresh_agent) ''Convert''])
        (reflection_request bare_env (agent_model fresh_agent)
           \<lparr>query = ''Convert'', plan = JObj bare_fields\<rparr>)
       = Inr ''The plan looks fine to me.''
   \<and> get (JObj [(''reflection'', JStr ''The plan looks fine to me.'')])
         ''requires_changes'' (JBool False) = Inr (JBool False)
   \<and> \<not> truthy (JBool False)
   \<and> render (JObj bare_fields) (JObj [(''reflection'', JStr ''The plan looks fine to me.'')])
        (JObj bare_fields)
       = tool_summary (JObj bare_fields)
           (JObj [(''reflection'', JStr ''The plan looks fine to me.'')]) (JObj bare_fields)
   \<and> fst (rf_execute bare_env ''Convert'' (fresh_agent, world0))
       = Inr (JStr (''Initial Thought: Convert with the tool'' @ newline
                    @ ''Initial Plan: Convert 100 USD to EUR'' @ newline
                    @ ''Reflection: The plan looks fine to me.'' @ newline
                    @ ''Final Plan: Convert 100 USD to EUR''))"
proof -
  let ?r = "JObj [(''reflection'', JStr ''The plan looks fine to me.'')]"
  have absent: "map_of bare_fields ''requires_tools'' = None"
    by (simp add: bare_fields_def)
  have planned: "client bare_env (requests world0)
      (plan_request bare_env ''gpt-4o-mini'' ''Convert'') = Inr bare_reply"
    by (simp add: bare_env_def stub_defs)
  have parsed: "loads bare_env bare_reply = Inr (JObj bare_fields)"
    by (simp add: bare_env_def stub_defs doc_defs bare_fields_def)
  have planned': "client bare_env (requests world0)
        (plan_request bare_env (agent_model fresh_agent) ''Convert'') = Inr bare_reply"
    by (simp add: bare_env_def stub_defs)
  have criticised: "client bare_env
        (requests world0 @ [plan_request bare_env (agent_model fresh_agent) ''Convert''])
        (reflection_request bare_env (agent_model fresh_agent)
           \<lparr>query = ''Convert'', plan = JObj bare_fields\<rparr>)
       = Inr ''The plan looks fine to me.''"
    by (simp add: bare_env_def stub_defs)
  have musing: "?r = (case loads bare_env ''The plan looks fine to me.'' of
                 Inl msg \<Rightarrow> JObj [(''reflection'', JStr ''The plan looks fine to me.'')]
               | Inr v \<Rightarrow> v)"
    by (simp add: bare_env_def stub_defs doc_defs)
  have flag: "get ?r ''requires_changes'' (JBool False) = Inr (JBool False)"
    by (simp add: get_def)
  have falsy: "\<not> truthy (JBool False)"
    by (simp add: truthy_def)
  note main = requires_tools_defaults_to_true [where kvs = bare_fields and env = bare_env
      and w = world0 and q = "''Convert''" and reply = bare_reply and ag = bare_agent
      and initial_plan = "JObj bare_fields" and reflection = ?r
      and env' = bare_env and rag = fresh_agent and plan_reply = bare_reply
      and critique_text = "''The plan looks fine to me.''" and r = ?r and flag = "JBool False"]
  from main absent have reads: "get (JObj bare_fields) ''requires_tools'' (JBool True) = Inr (JBool True)"
    by blast
  from main absent planned parsed
  have body: "tu_execute_body bare_env bare_agent ''Convert'' world0
       = execute_tools bare_agent (JObj bare_fields)
           (world0\<lparr>requests := requests world0 @ [plan_request bare_env ''gpt-4o-mini'' ''Convert'']\<rparr>)"
    by blast
  have tools: "execute_tools bare_agent (JObj bare_fields)
           (world0\<lparr>requests := requests world0 @ [plan_request bare_env ''gpt-4o-mini'' ''Convert'']\<rparr>)
       = (Inr (JStr (''Thought: Convert with the tool'' @ newline
                     @ ''Plan: Convert 100 USD to EUR'' @ newline
                     @ ''Results: 100 USD = 90.00 EUR'')),
          \<lparr>requests = [plan_request bare_env ''gpt-4o-mini'' ''Convert''],
           invocations = [(''convert_currency'', usd_eur_args)]\<rparr>)"
    by (simp add: execute_tools_def bare_agent_def bare_fields_def bare_env_def
          doc_defs stub_defs add_tool_def use_tool_def
          convert_currency_tool_def bind_parameters_def convert_currency_def
          convert_currency_body_def prog_defs py_defs)
  from body tools have out: "fst (tu_execute bare_env bare_agent ''Convert'' world0)
       = Inr (JStr (''Thought: Convert with the tool'' @ newline
                    @ ''Plan: Convert 100 USD to EUR'' @ newline
                    @ ''Results: 100 USD = 90.00 EUR''))"
    by (simp add: tu_execute_cases)
  from body tools have entered: "invocations (snd (tu_execute bare_env bare_agent ''Convert'' world0))
       = [(''convert_currency'', usd_eur_args)]"
    by (simp add: tu_execute_cases)
  from main absent have branch: "render (JObj bare_fields) ?r (JObj bare_fields)
       = tool_summary (JObj bare_fields) ?r (JObj bare_fields)"
    by blast
  from main planned' parsed absent criticised musing flag falsy
  have "fst (rf_execute bare_env ''Convert'' (fresh_agent, world0))
         = (case tool_summary (JObj bare_fields) ?r (JObj bare_fields) of
              Inl e \<Rightarrow> Inr (JStr (''Error executing plan: '' @ exn_str e))
            | Inr text \<Rightarrow> Inr text)"
    by blast
  moreover have "tool_summary (JObj bare_fields) ?r (JObj bare_fields)
       = Inr (JStr (''Initial Thought: Convert with the tool'' @ newline
                    @ ''Initial Plan: Convert 100 USD to EUR'' @ newline
                    @ ''Reflection: The plan looks fine to me.'' @ newline
                    @ ''Final Plan: Convert 100 USD to EUR''))"
    by (simp add: tool_summary_def bare_fields_def bindR_def getitem_def get_def py_join_def
          py_str_def)
  ultimately have summary: "fst (rf_execute bare_env ''Convert'' (fresh_agent, world0))
       = Inr (JStr (''Initial Thought: Convert with the tool'' @ newline
                    @ ''Initial Plan: Convert 100 USD to EUR'' @ newline
                    @ ''Reflection: The plan looks fine to me.'' @ newline
                    @ ''Final Plan: Convert 100 USD to EUR''))"
    by simp
  from absent reads planned parsed body out entered planned' criticised flag falsy branch summary
  show ?thesis by blast
qed

end
